theory Spec2Isabelle
  imports Complex_Main
begin

section \<open>DeAuthShield: the detection core\<close>

text \<open>
  The detection core of the repository is the class \<open>DeAuthDetector\<close> of
  \<^verbatim>\<open>detector.py\<close>; the statistics snapshot is \<open>DeauthDetector.get_stats\<close> of
  \<^verbatim>\<open>deauth_simulator.py\<close>. Both are embedded below with explicit state passing.

  Modelling decisions, fixed once for the whole development:
  \<^item> Points in time and durations are real numbers. Python reads the clock with
    \<^verbatim>\<open>time.time()\<close>, a float; the model computes \<open>ts - t\<close> exactly and does not
    model the rounding of binary floating point.
  \<^item> The reading of the clock taken inside \<open>process_packet\<close> is a parameter \<open>ts\<close> of
    the model: it is the only clock value the method uses, both as the recorded
    timestamp of the frame and as the reference point of the eviction.
  \<^item> A text built by an f-string is represented by the values it is built from
    (datatype \<open>message\<close>), not by its characters.
  \<^item> \<open>console_output\<close> (a text widget shared with the user interface) is the list of
    the messages appended to it. The file named by \<open>log_path\<close> lives outside the
    object; the lines appended to it are carried in the field \<open>log_file\<close>.
  \<^item> Opening the log file can fail (\<open>log_path\<close> is free text typed by the user, and
    \<^verbatim>\<open>open(self.log_path, 'a')\<close> raises \<open>OSError\<close> for a path that cannot be opened).
    Whether the operating system lets the call open and write the file is a parameter
    \<open>can_append\<close> of the model. An exception leaves the method at once; the object keeps
    the state it had reached, and the caller gets the exception.
\<close>

subsection \<open>Data\<close>

text \<open>
  A captured frame, as far as \<open>process_packet\<close> looks at it:
  \<^verbatim>\<open>pkt.haslayer(Dot11Deauth)\<close> and \<^verbatim>\<open>pkt.addr2\<close> (which scapy leaves \<open>None\<close> when the
  frame has no second address).
\<close>

record packet =
  haslayer_Dot11Deauth :: bool
  addr2 :: "string option"

text \<open>
  \<open>Deauth_detected mac ts\<close> stands for
  \<^verbatim>\<open>f"[!] Deauth packet detected from {mac} at {time.ctime(ts)}"\<close> and
  \<open>Threshold_exceeded n w\<close> for
  \<^verbatim>\<open>f"[ALERT] Threshold exceeded: {n} deauth packets in {w}s"\<close>.
\<close>

datatype message =
  Deauth_detected "string option" real
| Threshold_exceeded nat real

record DeAuthDetector =
  interface :: string
  threshold :: int
  time_window :: real
  log_path :: "string option"
  console_output :: "message list"
  packet_times :: "real list"
  suspicious_macs :: "string option set"
  total_deauth_packets :: int
  alerts_triggered :: int
  running :: bool
  log_file :: "message list"

text \<open>
  Errors. \<open>OSError\<close> is what \<^verbatim>\<open>open\<close> and \<^verbatim>\<open>write\<close> raise in line 35 and 36 of
  \<^verbatim>\<open>detector.py\<close>. \<open>InvalidConfiguration\<close> and \<open>SessionClosed\<close> are the error kinds the
  specification names; no statement of \<^verbatim>\<open>detector.py\<close> raises either of them, and they
  are needed only to write down what the specification asks for.
\<close>

datatype error = InvalidConfiguration | SessionClosed | OSError

text \<open>
  What a call of a method leaves behind: it returns, or it raises; either way the object
  is in some state afterwards.
\<close>

datatype 'a outcome = Returned 'a | Raised error 'a

fun state_of :: "'a outcome \<Rightarrow> 'a" where
  "state_of (Returned s) = s"
| "state_of (Raised e s) = s"

subsection \<open>Construction\<close>

text \<open>
  \<^verbatim>\<open>DeAuthDetector.__init__(self, interface, threshold, time_window, log_path,
  console_output)\<close>: stores its five arguments and initialises the session state. It
  checks nothing. The last argument of the model is the current content of the widget.
\<close>

definition DeAuthDetector_init ::
  "string \<Rightarrow> int \<Rightarrow> real \<Rightarrow> string option \<Rightarrow> message list \<Rightarrow> DeAuthDetector" where
  "DeAuthDetector_init iface thr win path console =
     \<lparr> interface = iface,
       threshold = thr,
       time_window = win,
       log_path = path,
       console_output = console,
       packet_times = [],
       suspicious_macs = {},
       total_deauth_packets = 0,
       alerts_triggered = 0,
       running = True,
       log_file = [] \<rparr>"

text \<open>
  Construction as the specification words it (section 4.1 and section 7): it fails with
  \<open>InvalidConfiguration\<close> when \<open>threshold <= 0\<close> or \<open>time_window <= 0\<close>, and otherwise
  yields the initial state. This definition follows the specification, not the source;
  it exists to be compared with \<open>DeAuthDetector_init\<close>.
\<close>

definition spec_construct ::
  "string \<Rightarrow> int \<Rightarrow> real \<Rightarrow> string option \<Rightarrow> message list \<Rightarrow> error + DeAuthDetector" where
  "spec_construct iface thr win path console =
     (if thr \<le> 0 \<or> win \<le> 0 then Inl InvalidConfiguration
      else Inr (DeAuthDetector_init iface thr win path console))"

subsection \<open>Processing one frame\<close>

text \<open>
  Python's truth value of \<^verbatim>\<open>self.log_path\<close>: \<open>None\<close> and the empty string are false.
\<close>

definition truthy :: "string option \<Rightarrow> bool" where
  "truthy p = (case p of None \<Rightarrow> False | Some s \<Rightarrow> s \<noteq> [])"

text \<open>
  Lines 34 to 36: the file is opened only when \<open>log_path\<close> is true, and the \<^verbatim>\<open>with\<close>
  statement raises when the operating system refuses.
\<close>

definition log_write_raises :: "DeAuthDetector \<Rightarrow> bool \<Rightarrow> bool" where
  "log_write_raises self can_append = (truthy (log_path self) \<and> \<not> can_append)"

text \<open>
  The list comprehension of line 39,
  \<^verbatim>\<open>[t for t in self.packet_times if ts - t <= self.time_window]\<close>.
\<close>

definition evict :: "real \<Rightarrow> real \<Rightarrow> real list \<Rightarrow> real list" where
  "evict ts win stamps = filter (\<lambda>t. ts - t \<le> win) stamps"

text \<open>
  \<^verbatim>\<open>DeAuthDetector.process_packet(self, pkt)\<close>, statement by statement; \<open>ts\<close> is the
  value \<^verbatim>\<open>time.time()\<close> returns in line 28. A frame without a deauthentication layer
  changes nothing. Lines 27 to 33 count the frame, record its timestamp and its address
  and append the detection message to the console; \<open>s1\<close> is the state after them. If
  the log write of lines 34 to 36 raises, the method ends there, in state \<open>s1\<close>: the
  eviction of line 39 and the alert of lines 40 to 43 are not reached. The method has no
  \<^verbatim>\<open>return\<close> statement and never reads \<open>self.running\<close>.
\<close>

definition process_packet ::
  "DeAuthDetector \<Rightarrow> packet \<Rightarrow> real \<Rightarrow> bool \<Rightarrow> DeAuthDetector outcome" where
  "process_packet self pkt ts can_append =
     (if haslayer_Dot11Deauth pkt then
        let mac = addr2 pkt;
            msg = Deauth_detected mac ts;
            s1 = self\<lparr> total_deauth_packets := total_deauth_packets self + 1,
                       packet_times := packet_times self @ [ts],
                       suspicious_macs := insert mac (suspicious_macs self),
                       console_output := console_output self @ [msg] \<rparr>
        in
          if log_write_raises s1 can_append then Raised OSError s1
          else
            let s1' = (if truthy (log_path s1) then s1\<lparr> log_file := log_file s1 @ [msg] \<rparr>
                       else s1);
                s2 = s1'\<lparr> packet_times := evict ts (time_window s1') (packet_times s1') \<rparr>
            in
              if int (length (packet_times s2)) \<ge> threshold s2 then
                Returned (s2\<lparr> console_output := console_output s2 @
                             [Threshold_exceeded (length (packet_times s2)) (time_window s2)],
                           alerts_triggered := alerts_triggered s2 + 1 \<rparr>)
              else Returned s2
      else Returned self)"

text \<open>
  One call of \<open>process_packet\<close>: the frame handed over, the clock reading of line 28,
  and whether the operating system lets this call append to the log file.
\<close>

record call =
  frame :: packet
  clock :: real
  appendable :: bool

text \<open>
  A sequence of calls of \<open>process_packet\<close> on the same object, one per captured frame.
  A call that raised has left the object in the state it had reached, and the next call
  starts from there.
\<close>

fun process_packets :: "DeAuthDetector \<Rightarrow> call list \<Rightarrow> DeAuthDetector" where
  "process_packets self [] = self"
| "process_packets self (c # rest) =
     process_packets (state_of (process_packet self (frame c) (clock c) (appendable c))) rest"

text \<open>
  Ingestion as the specification words it (section 4.1, \<open>stop()\<close>, and section 7): once
  the session is stopped, it fails with \<open>SessionClosed\<close> and changes nothing. This
  definition follows the specification, not the source; it exists to be compared with
  \<open>process_packet\<close>. \<^verbatim>\<open>detector.py\<close> has no \<open>stop\<close> method; a stopped session is a
  detector whose \<open>running\<close> flag is \<open>False\<close>.
\<close>

definition spec_ingest ::
  "DeAuthDetector \<Rightarrow> packet \<Rightarrow> real \<Rightarrow> bool \<Rightarrow> DeAuthDetector outcome" where
  "spec_ingest self pkt ts can_append =
     (if \<not> running self then Raised SessionClosed self
      else process_packet self pkt ts can_append)"

subsection \<open>The simulator's statistics\<close>

text \<open>
  The state of \<open>DeauthDetector\<close> in \<^verbatim>\<open>deauth_simulator.py\<close> as \<open>__init__\<close> sets
  it up. The dictionary \<open>self.stats\<close> has the four fixed keys \<open>total\<close>, \<open>deauth\<close>,
  \<open>alerts\<close> and \<open>broadcast\<close> and is a record here. Field names carry the prefix
  \<open>sim_\<close> where the name is taken by the detector above.
\<close>

record sim_packet =
  timestamp :: real
  src :: string
  dst :: string
  ptype :: string
  reason :: int
  attack :: bool
  info :: string

record stats =
  total :: int
  deauth :: int
  alerts :: int
  broadcast :: int

record DeauthDetector =
  sim_running :: bool
  sim_interface :: string
  packet_history :: "sim_packet list"
  normal_rate :: real
  attack_active :: bool
  sim_stats :: stats
  start_time :: real
  last_attack_time :: real
  attack_cooldown :: real

text \<open>
  The values of the dictionary \<open>get_stats\<close> returns. \<open>Strftime_HMS u\<close> stands for the
  text \<^verbatim>\<open>datetime.utcfromtimestamp(u).strftime('%H:%M:%S')\<close> and \<open>Format_1f r\<close> for
  \<^verbatim>\<open>f"{r:.1f}"\<close>: the number that is rendered is kept, the rendering is not modelled.
\<close>

datatype pyval =
  Int_val int
| Str_val string
| Strftime_HMS real
| Format_1f real

text \<open>
  \<^verbatim>\<open>DeauthDetector.get_stats(self)\<close>; \<open>now\<close> is the value of \<^verbatim>\<open>time.time()\<close> in its
  first line. The result is the dictionary and the state after the call.
\<close>

definition get_stats :: "DeauthDetector \<Rightarrow> real \<Rightarrow> (string \<rightharpoonup> pyval) \<times> DeauthDetector" where
  "get_stats self now =
     (let uptime = now - start_time self;
          rate = (if uptime > 0 then real_of_int (deauth (sim_stats self)) / uptime else 0)
      in ([''uptime'' \<mapsto> Strftime_HMS uptime,
           ''deauth'' \<mapsto> Int_val (deauth (sim_stats self)),
           ''rate'' \<mapsto> Format_1f rate,
           ''alerts'' \<mapsto> Int_val (alerts (sim_stats self)),
           ''broadcast'' \<mapsto> Int_val (broadcast (sim_stats self)),
           ''interface'' \<mapsto> Str_val (sim_interface self)],
          self))"

section \<open>Basic facts about one call\<close>

lemma log_write_raises_log_path:
  "log_path s = log_path self \<Longrightarrow> log_write_raises s can_append = log_write_raises self can_append"
  by (simp add: log_write_raises_def)

lemma state_of_map_outcome [simp]: "state_of (map_outcome f r) = f (state_of r)"
  by (cases r) simp_all

lemma process_packet_other [simp]:
  "\<not> haslayer_Dot11Deauth pkt \<Longrightarrow> process_packet self pkt ts can_append = Returned self"
  by (simp add: process_packet_def)

lemma process_packet_outcome:
  "process_packet self pkt ts can_append =
     (if haslayer_Dot11Deauth pkt \<and> log_write_raises self can_append
      then Raised OSError (state_of (process_packet self pkt ts can_append))
      else Returned (state_of (process_packet self pkt ts can_append)))"
  by (simp add: process_packet_def Let_def log_write_raises_def)

lemma process_packet_log_write_fails:
  assumes "haslayer_Dot11Deauth pkt" and "log_write_raises self can_append"
  shows "process_packet self pkt ts can_append =
           Raised OSError (state_of (process_packet self pkt ts can_append))"
    and "packet_times (state_of (process_packet self pkt ts can_append)) = packet_times self @ [ts]"
    and "alerts_triggered (state_of (process_packet self pkt ts can_append)) = alerts_triggered self"
  using assms by (simp_all add: process_packet_def Let_def log_write_raises_def)

lemma process_packet_total [simp]:
  "total_deauth_packets (state_of (process_packet self pkt ts can_append)) =
     (if haslayer_Dot11Deauth pkt then total_deauth_packets self + 1
      else total_deauth_packets self)"
  by (simp add: process_packet_def Let_def)

lemma process_packet_times [simp]:
  "packet_times (state_of (process_packet self pkt ts can_append)) =
     (if haslayer_Dot11Deauth pkt
      then (if log_write_raises self can_append then packet_times self @ [ts]
            else evict ts (time_window self) (packet_times self @ [ts]))
      else packet_times self)"
  by (simp add: process_packet_def Let_def log_write_raises_def)

lemma process_packet_macs [simp]:
  "suspicious_macs (state_of (process_packet self pkt ts can_append)) =
     (if haslayer_Dot11Deauth pkt then insert (addr2 pkt) (suspicious_macs self)
      else suspicious_macs self)"
  by (simp add: process_packet_def Let_def)

lemma process_packet_config [simp]:
  "threshold (state_of (process_packet self pkt ts can_append)) = threshold self"
  "time_window (state_of (process_packet self pkt ts can_append)) = time_window self"
  "interface (state_of (process_packet self pkt ts can_append)) = interface self"
  "log_path (state_of (process_packet self pkt ts can_append)) = log_path self"
  "running (state_of (process_packet self pkt ts can_append)) = running self"
  by (simp_all add: process_packet_def Let_def)

lemma process_packet_alerts:
  "alerts_triggered (state_of (process_packet self pkt ts can_append)) =
     (if haslayer_Dot11Deauth pkt \<and> \<not> log_write_raises self can_append \<and>
         threshold self \<le> int (length (evict ts (time_window self) (packet_times self @ [ts])))
      then alerts_triggered self + 1 else alerts_triggered self)"
  by (simp add: process_packet_def Let_def log_write_raises_def)

lemma process_packet_console:
  "console_output (state_of (process_packet self pkt ts can_append)) =
     (if haslayer_Dot11Deauth pkt then
        console_output self @ Deauth_detected (addr2 pkt) ts #
          (if \<not> log_write_raises self can_append \<and>
              threshold self \<le> int (length (evict ts (time_window self) (packet_times self @ [ts])))
           then [Threshold_exceeded
                   (length (evict ts (time_window self) (packet_times self @ [ts])))
                   (time_window self)]
           else [])
      else console_output self)"
  by (simp add: process_packet_def Let_def log_write_raises_def)


lemma process_packets_config [simp]:
  "threshold (process_packets self evs) = threshold self"
  "time_window (process_packets self evs) = time_window self"
  "log_path (process_packets self evs) = log_path self"
  "running (process_packets self evs) = running self"
  by (induction evs arbitrary: self) auto

lemma log_write_raises_process_packets [simp]:
  "log_write_raises (process_packets self evs) can_append = log_write_raises self can_append"
  by (simp add: log_write_raises_def)

section \<open>The sliding window\<close>









lemma suspicious_macs_process_packets:
  "suspicious_macs (process_packets self evs) =
     suspicious_macs self \<union>
       set (map (\<lambda>c. addr2 (frame c)) (filter (\<lambda>c. haslayer_Dot11Deauth (frame c)) evs))"
  by (induction evs arbitrary: self) auto

section \<open>The claims\<close>





text \<open>
  C3, as the specification states it: construction with \<open>threshold <= 0\<close> or
  \<open>time_window <= 0\<close> fails with \<open>InvalidConfiguration\<close>. The source does not do this:
  \<open>__init__\<close> with \<open>threshold = 0\<close> returns a detector, which stores the 0, is running,
  and raises an alert on the first deauthentication frame it sees.
\<close>

theorem construction_fails_counterexample:
  "Inr (DeAuthDetector_init ''wlan0mon'' 0 5 None []) \<noteq> spec_construct ''wlan0mon'' 0 5 None []
   \<and> spec_construct ''wlan0mon'' 0 5 None [] = Inl InvalidConfiguration
   \<and> threshold (DeAuthDetector_init ''wlan0mon'' 0 5 None []) = 0
   \<and> running (DeAuthDetector_init ''wlan0mon'' 0 5 None [])
   \<and> alerts_triggered (state_of (process_packet (DeAuthDetector_init ''wlan0mon'' 0 5 None [])
        \<lparr>haslayer_Dot11Deauth = True, addr2 = Some ''AA:BB:CC:DD:EE:01''\<rparr> 0 True)) = 1"
  by (simp add: spec_construct_def DeAuthDetector_init_def process_packet_alerts evict_def
        log_write_raises_def truthy_def)

text \<open>
  C3, amended. Construction never fails and validates nothing: for every \<open>threshold\<close>
  and \<open>time_window\<close>, positive or not, \<open>__init__\<close> returns a detector that stores both
  unchanged and has an empty window, an empty address set, both counters at zero and
  \<open>running\<close> set. It agrees with the construction of the specification exactly on the
  configurations with \<open>threshold > 0\<close> and \<open>time_window > 0\<close>.
\<close>

theorem construction_never_fails:
  "threshold (DeAuthDetector_init iface thr win path console) = thr
   \<and> time_window (DeAuthDetector_init iface thr win path console) = win
   \<and> interface (DeAuthDetector_init iface thr win path console) = iface
   \<and> packet_times (DeAuthDetector_init iface thr win path console) = []
   \<and> suspicious_macs (DeAuthDetector_init iface thr win path console) = {}
   \<and> total_deauth_packets (DeAuthDetector_init iface thr win path console) = 0
   \<and> alerts_triggered (DeAuthDetector_init iface thr win path console) = 0
   \<and> running (DeAuthDetector_init iface thr win path console)
   \<and> (spec_construct iface thr win path console =
         Inr (DeAuthDetector_init iface thr win path console)) = (0 < thr \<and> 0 < win)"
  by (auto simp add: spec_construct_def DeAuthDetector_init_def)

text \<open>
  C4, as the specification states it: on a stopped session a call of ingest fails with
  \<open>SessionClosed\<close> and leaves the state unchanged. The source does not do this: on a
  detector whose \<open>running\<close> flag is \<open>False\<close>, \<open>process_packet\<close> returns normally, and it
  has counted the frame and recorded its timestamp and its address.
\<close>

theorem ingest_after_stop_counterexample:
  "process_packet ((DeAuthDetector_init ''wlan0mon'' 10 5 None [])\<lparr>running := False\<rparr>) \<lparr>haslayer_Dot11Deauth = True, addr2 = Some ''AA:BB:CC:DD:EE:01''\<rparr> 0 True
     \<noteq> spec_ingest ((DeAuthDetector_init ''wlan0mon'' 10 5 None [])\<lparr>running := False\<rparr>) \<lparr>haslayer_Dot11Deauth = True, addr2 = Some ''AA:BB:CC:DD:EE:01''\<rparr> 0 True
   \<and> spec_ingest ((DeAuthDetector_init ''wlan0mon'' 10 5 None [])\<lparr>running := False\<rparr>) \<lparr>haslayer_Dot11Deauth = True, addr2 = Some ''AA:BB:CC:DD:EE:01''\<rparr> 0 True =
       Raised SessionClosed ((DeAuthDetector_init ''wlan0mon'' 10 5 None [])\<lparr>running := False\<rparr>)
   \<and> process_packet ((DeAuthDetector_init ''wlan0mon'' 10 5 None [])\<lparr>running := False\<rparr>) \<lparr>haslayer_Dot11Deauth = True, addr2 = Some ''AA:BB:CC:DD:EE:01''\<rparr> 0 True =
       Returned (state_of (process_packet ((DeAuthDetector_init ''wlan0mon'' 10 5 None [])\<lparr>running := False\<rparr>) \<lparr>haslayer_Dot11Deauth = True, addr2 = Some ''AA:BB:CC:DD:EE:01''\<rparr> 0 True))
   \<and> total_deauth_packets ((DeAuthDetector_init ''wlan0mon'' 10 5 None [])\<lparr>running := False\<rparr>) = 0
   \<and> total_deauth_packets
        (state_of (process_packet ((DeAuthDetector_init ''wlan0mon'' 10 5 None [])\<lparr>running := False\<rparr>) \<lparr>haslayer_Dot11Deauth = True, addr2 = Some ''AA:BB:CC:DD:EE:01''\<rparr> 0 True)) = 1
   \<and> packet_times
        (state_of (process_packet ((DeAuthDetector_init ''wlan0mon'' 10 5 None [])\<lparr>running := False\<rparr>) \<lparr>haslayer_Dot11Deauth = True, addr2 = Some ''AA:BB:CC:DD:EE:01''\<rparr> 0 True)) = [0]
   \<and> suspicious_macs
        (state_of (process_packet ((DeAuthDetector_init ''wlan0mon'' 10 5 None [])\<lparr>running := False\<rparr>) \<lparr>haslayer_Dot11Deauth = True, addr2 = Some ''AA:BB:CC:DD:EE:01''\<rparr> 0 True)) =
        {Some ''AA:BB:CC:DD:EE:01''}"
proof -
  let ?d = "(DeAuthDetector_init ''wlan0mon'' 10 5 None [])\<lparr>running := False\<rparr>"
  let ?p = "\<lparr>haslayer_Dot11Deauth = True, addr2 = Some ''AA:BB:CC:DD:EE:01''\<rparr>"
  have nr: "\<not> log_write_raises ?d True"
    by (simp add: log_write_raises_def)
  have ret: "process_packet ?d ?p 0 True = Returned (state_of (process_packet ?d ?p 0 True))"
    using nr process_packet_outcome [of ?d ?p 0 True] by simp
  have sp: "spec_ingest ?d ?p 0 True = Raised SessionClosed ?d"
    by (simp add: spec_ingest_def)
  have ne: "process_packet ?d ?p 0 True \<noteq> spec_ingest ?d ?p 0 True"
  proof
    assume "process_packet ?d ?p 0 True = spec_ingest ?d ?p 0 True"
    then have "Returned (state_of (process_packet ?d ?p 0 True)) = Raised SessionClosed ?d"
      using ret sp by simp
    then show False by simp
  qed
  have t0: "total_deauth_packets ?d = 0"
    by (simp add: DeAuthDetector_init_def)
  have t1: "total_deauth_packets (state_of (process_packet ?d ?p 0 True)) = 1"
    by (simp add: DeAuthDetector_init_def)
  have pt: "packet_times (state_of (process_packet ?d ?p 0 True)) = [0]"
    using nr by (simp add: DeAuthDetector_init_def evict_def)
  have sm: "suspicious_macs (state_of (process_packet ?d ?p 0 True)) = {Some ''AA:BB:CC:DD:EE:01''}"
    by (simp add: DeAuthDetector_init_def)
  from ne sp ret t0 t1 pt sm show ?thesis by blast
qed

text \<open>
  C4, amended. \<open>process_packet\<close> never reads the \<open>running\<close> flag and never raises
  \<open>SessionClosed\<close>: on a detector whose flag has been cleared, a frame is processed
  exactly as on the same detector with the flag set (the call returns or raises in the
  same cases, and the counters, the window and the address set are updated in the same
  way), and the flag stays cleared.
\<close>

theorem process_packet_ignores_running:
  "process_packet (self\<lparr>running := False\<rparr>) pkt ts can_append =
     map_outcome (\<lambda>s. s\<lparr>running := False\<rparr>) (process_packet self pkt ts can_append)
   \<and> process_packet self pkt ts can_append \<noteq> Raised SessionClosed s
   \<and> total_deauth_packets (state_of (process_packet (self\<lparr>running := False\<rparr>) pkt ts can_append)) =
       (if haslayer_Dot11Deauth pkt then total_deauth_packets self + 1 else total_deauth_packets self)
   \<and> packet_times (state_of (process_packet (self\<lparr>running := False\<rparr>) pkt ts can_append)) =
       packet_times (state_of (process_packet self pkt ts can_append))
   \<and> alerts_triggered (state_of (process_packet (self\<lparr>running := False\<rparr>) pkt ts can_append)) =
       alerts_triggered (state_of (process_packet self pkt ts can_append))
   \<and> suspicious_macs (state_of (process_packet (self\<lparr>running := False\<rparr>) pkt ts can_append)) =
       suspicious_macs (state_of (process_packet self pkt ts can_append))
   \<and> running (state_of (process_packet (self\<lparr>running := False\<rparr>) pkt ts can_append)) = False"
proof -
  have eq: "process_packet (self\<lparr>running := False\<rparr>) pkt ts can_append =
      map_outcome (\<lambda>s. s\<lparr>running := False\<rparr>) (process_packet self pkt ts can_append)"
    by (simp add: process_packet_def Let_def log_write_raises_def)
  have ns: "process_packet self pkt ts can_append \<noteq> Raised SessionClosed s"
    by (simp add: process_packet_def Let_def)
  have lw: "log_write_raises (self\<lparr>running := False\<rparr>) can_append = log_write_raises self can_append"
    by (simp add: log_write_raises_def)
  show ?thesis
    using eq ns by (simp add: process_packet_alerts lw)
qed



text \<open>
  C6. Every call of \<open>process_packet\<close> on a deauthentication frame adds exactly one to
  \<open>total_deauth_packets\<close>, whether or not the call raised an alert (and whether or not
  the log write raised), and no call lowers the counter. Hence after any sequence of
  frames the counter has grown by the number of deauthentication frames in it, and a new
  detector that has been given \<open>N\<close> such frames shows \<open>N\<close>.
\<close>

theorem total_deauth_packets_counts:
  "total_deauth_packets (process_packets self evs) =
     total_deauth_packets self + int (length (filter (\<lambda>c. haslayer_Dot11Deauth (frame c)) evs))
   \<and> total_deauth_packets self \<le> total_deauth_packets (process_packets self evs)
   \<and> total_deauth_packets
        (process_packets (DeAuthDetector_init iface thr win path console)
           (map (\<lambda>(mac, ts, ok).
                   \<lparr>frame = \<lparr>haslayer_Dot11Deauth = True, addr2 = mac\<rparr>,
                    clock = ts, appendable = ok\<rparr>) ins)) =
      int (length ins)"
proof -
  have step: "total_deauth_packets (process_packets s es) =
      total_deauth_packets s + int (length (filter (\<lambda>c. haslayer_Dot11Deauth (frame c)) es))"
    for s es
    by (induction es arbitrary: s) auto
  have all: "filter (\<lambda>c. haslayer_Dot11Deauth (frame c))
       (map (\<lambda>(mac, ts, ok).
               \<lparr>frame = \<lparr>haslayer_Dot11Deauth = True, addr2 = mac\<rparr>,
                clock = ts, appendable = ok\<rparr>) ins) =
       map (\<lambda>(mac, ts, ok).
               \<lparr>frame = \<lparr>haslayer_Dot11Deauth = True, addr2 = mac\<rparr>,
                clock = ts, appendable = ok\<rparr>) ins"
    for ins :: "(string option \<times> real \<times> bool) list"
    by (induction ins) auto
  show ?thesis
    by (simp add: step all DeAuthDetector_init_def)
qed

text \<open>
  C7. After any sequence of frames given to a new detector, \<open>suspicious_macs\<close> is the set
  of the \<open>addr2\<close> values of the deauthentication frames in it. Its size is therefore the
  number of distinct such addresses, whatever the repetitions and the order of arrival.
\<close>

theorem suspicious_macs_distinct_count:
  "suspicious_macs (process_packets (DeAuthDetector_init iface thr win path console) evs) =
     set (map (\<lambda>c. addr2 (frame c)) (filter (\<lambda>c. haslayer_Dot11Deauth (frame c)) evs))
   \<and> card (suspicious_macs (process_packets (DeAuthDetector_init iface thr win path console) evs)) =
     length (remdups (map (\<lambda>c. addr2 (frame c))
       (filter (\<lambda>c. haslayer_Dot11Deauth (frame c)) evs)))
   \<and> card (suspicious_macs (process_packets (DeAuthDetector_init iface thr win path console)
        (map (\<lambda>(mac, ts, ok).
                \<lparr>frame = \<lparr>haslayer_Dot11Deauth = True, addr2 = mac\<rparr>,
                 clock = ts, appendable = ok\<rparr>) ins))) =
     card (fst ` set ins)"
proof -
  let ?d = "DeAuthDetector_init iface thr win path console"
  have emp: "suspicious_macs ?d = {}" by (simp add: DeAuthDetector_init_def)
  have eq: "suspicious_macs (process_packets ?d es) =
      set (map (\<lambda>c. addr2 (frame c)) (filter (\<lambda>c. haslayer_Dot11Deauth (frame c)) es))"
    for es
    using suspicious_macs_process_packets [of ?d es] emp by simp
  have ins: "set (map (\<lambda>c. addr2 (frame c)) (filter (\<lambda>c. haslayer_Dot11Deauth (frame c))
      (map (\<lambda>(mac, ts, ok).
              \<lparr>frame = \<lparr>haslayer_Dot11Deauth = True, addr2 = mac\<rparr>,
               clock = ts, appendable = ok\<rparr>) ins))) = fst ` set ins"
    for ins :: "(string option \<times> real \<times> bool) list"
    by (induction ins) auto
  show ?thesis
    unfolding eq ins by (simp add: length_remdups_card_conv)
qed

text \<open>
  C8, as the specification states it: the snapshot has the average rate
  \<open>total_event_count / uptime\<close>, which is 0 when \<open>uptime = 0\<close>, and the number of
  suspicious addresses. \<open>get_stats\<close> differs: with three frames counted, \<open>start_time = 10\<close>
  and a clock reading of 5 (the wall clock was set back), the uptime is \<open>-5\<close> and the rate
  that is rendered is 0, not \<open>3 / (-5)\<close>; and the dictionary has the six keys below, none
  of them for suspicious addresses.
\<close>

theorem get_stats_counterexample:
  "fst (get_stats \<lparr>sim_running = True, sim_interface = ''wlan0'', packet_history = [],
          normal_rate = 1 / 10, attack_active = False,
          sim_stats = \<lparr>total = 3, deauth = 3, alerts = 0, broadcast = 0\<rparr>,
          start_time = 10, last_attack_time = 0, attack_cooldown = 30\<rparr> 5) ''rate''
     = Some (Format_1f 0)
   \<and> Format_1f 0 \<noteq> Format_1f (real_of_int 3 / (5 - 10))
   \<and> dom (fst (get_stats \<lparr>sim_running = True, sim_interface = ''wlan0'', packet_history = [],
          normal_rate = 1 / 10, attack_active = False,
          sim_stats = \<lparr>total = 3, deauth = 3, alerts = 0, broadcast = 0\<rparr>,
          start_time = 10, last_attack_time = 0, attack_cooldown = 30\<rparr> 5)) =
       {''uptime'', ''deauth'', ''rate'', ''alerts'', ''broadcast'', ''interface''}"
  by (auto simp add: get_stats_def Let_def)

text \<open>
  C8, amended. \<open>get_stats\<close> changes no state. It returns the rate
  \<open>stats["deauth"] / uptime\<close> when \<open>uptime > 0\<close> and 0 otherwise (also for a negative
  uptime), rendered with one decimal, together with the rendered uptime, the current
  \<open>deauth\<close>, \<open>alerts\<close> and \<open>broadcast\<close> counters and the interface. It has no entry for
  the number of suspicious addresses.
\<close>

theorem get_stats_snapshot:
  "snd (get_stats self now) = self
   \<and> fst (get_stats self now) ''rate'' =
       Some (Format_1f (if now - start_time self > 0
                        then real_of_int (deauth (sim_stats self)) / (now - start_time self)
                        else 0))
   \<and> fst (get_stats self now) ''uptime'' = Some (Strftime_HMS (now - start_time self))
   \<and> fst (get_stats self now) ''deauth'' = Some (Int_val (deauth (sim_stats self)))
   \<and> fst (get_stats self now) ''alerts'' = Some (Int_val (alerts (sim_stats self)))
   \<and> fst (get_stats self now) ''broadcast'' = Some (Int_val (broadcast (sim_stats self)))
   \<and> fst (get_stats self now) ''interface'' = Some (Str_val (sim_interface self))
   \<and> dom (fst (get_stats self now)) =
       {''uptime'', ''deauth'', ''rate'', ''alerts'', ''broadcast'', ''interface''}"
  by (auto simp add: get_stats_def Let_def)

text \<open>
  C9. Scenarios A and B of the specification, with \<open>threshold = 10\<close> and
  \<open>time_window = 5\<close>. Nine frames at 0, 0.1, ..., 0.8 from nine distinct addresses: no
  alert (the counter stays 0, the console holds the nine detection messages only). A
  tenth frame at 0.9: the alert with a window count of 10. One more frame at 6.0: the
  window holds 6.0 alone, and no further alert.
\<close>

theorem scenario_A_B:
  "alerts_triggered (process_packets (DeAuthDetector_init ''wlan0mon'' 10 5 None [])
     [\<lparr>frame = \<lparr>haslayer_Dot11Deauth = True, addr2 = Some ''AA:BB:CC:DD:EE:01''\<rparr>, clock = 0, appendable = True\<rparr>,
      \<lparr>frame = \<lparr>haslayer_Dot11Deauth = True, addr2 = Some ''AA:BB:CC:DD:EE:02''\<rparr>, clock = 1 / 10, appendable = True\<rparr>,
      \<lparr>frame = \<lparr>haslayer_Dot11Deauth = True, addr2 = Some ''AA:BB:CC:DD:EE:03''\<rparr>, clock = 2 / 10, appendable = True\<rparr>,
      \<lparr>frame = \<lparr>haslayer_Dot11Deauth = True, addr2 = Some ''AA:BB:CC:DD:EE:04''\<rparr>, clock = 3 / 10, appendable = True\<rparr>,
      \<lparr>frame = \<lparr>haslayer_Dot11Deauth = True, addr2 = Some ''AA:BB:CC:DD:EE:05''\<rparr>, clock = 4 / 10, appendable = True\<rparr>,
      \<lparr>frame = \<lparr>haslayer_Dot11Deauth = True, addr2 = Some ''AA:BB:CC:DD:EE:06''\<rparr>, clock = 5 / 10, appendable = True\<rparr>,
      \<lparr>frame = \<lparr>haslayer_Dot11Deauth = True, addr2 = Some ''AA:BB:CC:DD:EE:07''\<rparr>, clock = 6 / 10, appendable = True\<rparr>,
      \<lparr>frame = \<lparr>haslayer_Dot11Deauth = True, addr2 = Some ''AA:BB:CC:DD:EE:08''\<rparr>, clock = 7 / 10, appendable = True\<rparr>,
      \<lparr>frame = \<lparr>haslayer_Dot11Deauth = True, addr2 = Some ''AA:BB:CC:DD:EE:09''\<rparr>, clock = 8 / 10, appendable = True\<rparr>]) = 0
   \<and> console_output (process_packets (DeAuthDetector_init ''wlan0mon'' 10 5 None [])
     [\<lparr>frame = \<lparr>haslayer_Dot11Deauth = True, addr2 = Some ''AA:BB:CC:DD:EE:01''\<rparr>, clock = 0, appendable = True\<rparr>,
      \<lparr>frame = \<lparr>haslayer_Dot11Deauth = True, addr2 = Some ''AA:BB:CC:DD:EE:02''\<rparr>, clock = 1 / 10, appendable = True\<rparr>,
      \<lparr>frame = \<lparr>haslayer_Dot11Deauth = True, addr2 = Some ''AA:BB:CC:DD:EE:03''\<rparr>, clock = 2 / 10, appendable = True\<rparr>,
      \<lparr>frame = \<lparr>haslayer_Dot11Deauth = True, addr2 = Some ''AA:BB:CC:DD:EE:04''\<rparr>, clock = 3 / 10, appendable = True\<rparr>,
      \<lparr>frame = \<lparr>haslayer_Dot11Deauth = True, addr2 = Some ''AA:BB:CC:DD:EE:05''\<rparr>, clock = 4 / 10, appendable = True\<rparr>,
      \<lparr>frame = \<lparr>haslayer_Dot11Deauth = True, addr2 = Some ''AA:BB:CC:DD:EE:06''\<rparr>, clock = 5 / 10, appendable = True\<rparr>,
      \<lparr>frame = \<lparr>haslayer_Dot11Deauth = True, addr2 = Some ''AA:BB:CC:DD:EE:07''\<rparr>, clock = 6 / 10, appendable = True\<rparr>,
      \<lparr>frame = \<lparr>haslayer_Dot11Deauth = True, addr2 = Some ''AA:BB:CC:DD:EE:08''\<rparr>, clock = 7 / 10, appendable = True\<rparr>,
      \<lparr>frame = \<lparr>haslayer_Dot11Deauth = True, addr2 = Some ''AA:BB:CC:DD:EE:09''\<rparr>, clock = 8 / 10, appendable = True\<rparr>]) =
     [Deauth_detected (Some ''AA:BB:CC:DD:EE:01'') 0,
      Deauth_detected (Some ''AA:BB:CC:DD:EE:02'') (1 / 10),
      Deauth_detected (Some ''AA:BB:CC:DD:EE:03'') (2 / 10),
      Deauth_detected (Some ''AA:BB:CC:DD:EE:04'') (3 / 10),
      Deauth_detected (Some ''AA:BB:CC:DD:EE:05'') (4 / 10),
      Deauth_detected (Some ''AA:BB:CC:DD:EE:06'') (5 / 10),
      Deauth_detected (Some ''AA:BB:CC:DD:EE:07'') (6 / 10),
      Deauth_detected (Some ''AA:BB:CC:DD:EE:08'') (7 / 10),
      Deauth_detected (Some ''AA:BB:CC:DD:EE:09'') (8 / 10)]
   \<and> console_output (process_packets (DeAuthDetector_init ''wlan0mon'' 10 5 None [])
     [\<lparr>frame = \<lparr>haslayer_Dot11Deauth = True, addr2 = Some ''AA:BB:CC:DD:EE:01''\<rparr>, clock = 0, appendable = True\<rparr>,
      \<lparr>frame = \<lparr>haslayer_Dot11Deauth = True, addr2 = Some ''AA:BB:CC:DD:EE:02''\<rparr>, clock = 1 / 10, appendable = True\<rparr>,
      \<lparr>frame = \<lparr>haslayer_Dot11Deauth = True, addr2 = Some ''AA:BB:CC:DD:EE:03''\<rparr>, clock = 2 / 10, appendable = True\<rparr>,
      \<lparr>frame = \<lparr>haslayer_Dot11Deauth = True, addr2 = Some ''AA:BB:CC:DD:EE:04''\<rparr>, clock = 3 / 10, appendable = True\<rparr>,
      \<lparr>frame = \<lparr>haslayer_Dot11Deauth = True, addr2 = Some ''AA:BB:CC:DD:EE:05''\<rparr>, clock = 4 / 10, appendable = True\<rparr>,
      \<lparr>frame = \<lparr>haslayer_Dot11Deauth = True, addr2 = Some ''AA:BB:CC:DD:EE:06''\<rparr>, clock = 5 / 10, appendable = True\<rparr>,
      \<lparr>frame = \<lparr>haslayer_Dot11Deauth = True, addr2 = Some ''AA:BB:CC:DD:EE:07''\<rparr>, clock = 6 / 10, appendable = True\<rparr>,
      \<lparr>frame = \<lparr>haslayer_Dot11Deauth = True, addr2 = Some ''AA:BB:CC:DD:EE:08''\<rparr>, clock = 7 / 10, appendable = True\<rparr>,
      \<lparr>frame = \<lparr>haslayer_Dot11Deauth = True, addr2 = Some ''AA:BB:CC:DD:EE:09''\<rparr>, clock = 8 / 10, appendable = True\<rparr>,
      \<lparr>frame = \<lparr>haslayer_Dot11Deauth = True, addr2 = Some ''AA:BB:CC:DD:EE:10''\<rparr>, clock = 9 / 10, appendable = True\<rparr>]) =
     [Deauth_detected (Some ''AA:BB:CC:DD:EE:01'') 0,
      Deauth_detected (Some ''AA:BB:CC:DD:EE:02'') (1 / 10),
      Deauth_detected (Some ''AA:BB:CC:DD:EE:03'') (2 / 10),
      Deauth_detected (Some ''AA:BB:CC:DD:EE:04'') (3 / 10),
      Deauth_detected (Some ''AA:BB:CC:DD:EE:05'') (4 / 10),
      Deauth_detected (Some ''AA:BB:CC:DD:EE:06'') (5 / 10),
      Deauth_detected (Some ''AA:BB:CC:DD:EE:07'') (6 / 10),
      Deauth_detected (Some ''AA:BB:CC:DD:EE:08'') (7 / 10),
      Deauth_detected (Some ''AA:BB:CC:DD:EE:09'') (8 / 10),
      Deauth_detected (Some ''AA:BB:CC:DD:EE:10'') (9 / 10),
      Threshold_exceeded 10 5]
   \<and> alerts_triggered (process_packets (DeAuthDetector_init ''wlan0mon'' 10 5 None [])
     [\<lparr>frame = \<lparr>haslayer_Dot11Deauth = True, addr2 = Some ''AA:BB:CC:DD:EE:01''\<rparr>, clock = 0, appendable = True\<rparr>,
      \<lparr>frame = \<lparr>haslayer_Dot11Deauth = True, addr2 = Some ''AA:BB:CC:DD:EE:02''\<rparr>, clock = 1 / 10, appendable = True\<rparr>,
      \<lparr>frame = \<lparr>haslayer_Dot11Deauth = True, addr2 = Some ''AA:BB:CC:DD:EE:03''\<rparr>, clock = 2 / 10, appendable = True\<rparr>,
      \<lparr>frame = \<lparr>haslayer_Dot11Deauth = True, addr2 = Some ''AA:BB:CC:DD:EE:04''\<rparr>, clock = 3 / 10, appendable = True\<rparr>,
      \<lparr>frame = \<lparr>haslayer_Dot11Deauth = True, addr2 = Some ''AA:BB:CC:DD:EE:05''\<rparr>, clock = 4 / 10, appendable = True\<rparr>,
      \<lparr>frame = \<lparr>haslayer_Dot11Deauth = True, addr2 = Some ''AA:BB:CC:DD:EE:06''\<rparr>, clock = 5 / 10, appendable = True\<rparr>,
      \<lparr>frame = \<lparr>haslayer_Dot11Deauth = True, addr2 = Some ''AA:BB:CC:DD:EE:07''\<rparr>, clock = 6 / 10, appendable = True\<rparr>,
      \<lparr>frame = \<lparr>haslayer_Dot11Deauth = True, addr2 = Some ''AA:BB:CC:DD:EE:08''\<rparr>, clock = 7 / 10, appendable = True\<rparr>,
      \<lparr>frame = \<lparr>haslayer_Dot11Deauth = True, addr2 = Some ''AA:BB:CC:DD:EE:09''\<rparr>, clock = 8 / 10, appendable = True\<rparr>,
      \<lparr>frame = \<lparr>haslayer_Dot11Deauth = True, addr2 = Some ''AA:BB:CC:DD:EE:10''\<rparr>, clock = 9 / 10, appendable = True\<rparr>]) = 1
   \<and> packet_times (process_packets (DeAuthDetector_init ''wlan0mon'' 10 5 None [])
     [\<lparr>frame = \<lparr>haslayer_Dot11Deauth = True, addr2 = Some ''AA:BB:CC:DD:EE:01''\<rparr>, clock = 0, appendable = True\<rparr>,
      \<lparr>frame = \<lparr>haslayer_Dot11Deauth = True, addr2 = Some ''AA:BB:CC:DD:EE:02''\<rparr>, clock = 1 / 10, appendable = True\<rparr>,
      \<lparr>frame = \<lparr>haslayer_Dot11Deauth = True, addr2 = Some ''AA:BB:CC:DD:EE:03''\<rparr>, clock = 2 / 10, appendable = True\<rparr>,
      \<lparr>frame = \<lparr>haslayer_Dot11Deauth = True, addr2 = Some ''AA:BB:CC:DD:EE:04''\<rparr>, clock = 3 / 10, appendable = True\<rparr>,
      \<lparr>frame = \<lparr>haslayer_Dot11Deauth = True, addr2 = Some ''AA:BB:CC:DD:EE:05''\<rparr>, clock = 4 / 10, appendable = True\<rparr>,
      \<lparr>frame = \<lparr>haslayer_Dot11Deauth = True, addr2 = Some ''AA:BB:CC:DD:EE:06''\<rparr>, clock = 5 / 10, appendable = True\<rparr>,
      \<lparr>frame = \<lparr>haslayer_Dot11Deauth = True, addr2 = Some ''AA:BB:CC:DD:EE:07''\<rparr>, clock = 6 / 10, appendable = True\<rparr>,
      \<lparr>frame = \<lparr>haslayer_Dot11Deauth = True, addr2 = Some ''AA:BB:CC:DD:EE:08''\<rparr>, clock = 7 / 10, appendable = True\<rparr>,
      \<lparr>frame = \<lparr>haslayer_Dot11Deauth = True, addr2 = Some ''AA:BB:CC:DD:EE:09''\<rparr>, clock = 8 / 10, appendable = True\<rparr>,
      \<lparr>frame = \<lparr>haslayer_Dot11Deauth = True, addr2 = Some ''AA:BB:CC:DD:EE:10''\<rparr>, clock = 9 / 10, appendable = True\<rparr>]) = [0, 1 / 10, 2 / 10, 3 / 10, 4 / 10, 5 / 10, 6 / 10, 7 / 10, 8 / 10, 9 / 10]
   \<and> packet_times (process_packets (DeAuthDetector_init ''wlan0mon'' 10 5 None [])
     [\<lparr>frame = \<lparr>haslayer_Dot11Deauth = True, addr2 = Some ''AA:BB:CC:DD:EE:01''\<rparr>, clock = 0, appendable = True\<rparr>,
      \<lparr>frame = \<lparr>haslayer_Dot11Deauth = True, addr2 = Some ''AA:BB:CC:DD:EE:02''\<rparr>, clock = 1 / 10, appendable = True\<rparr>,
      \<lparr>frame = \<lparr>haslayer_Dot11Deauth = True, addr2 = Some ''AA:BB:CC:DD:EE:03''\<rparr>, clock = 2 / 10, appendable = True\<rparr>,
      \<lparr>frame = \<lparr>haslayer_Dot11Deauth = True, addr2 = Some ''AA:BB:CC:DD:EE:04''\<rparr>, clock = 3 / 10, appendable = True\<rparr>,
      \<lparr>frame = \<lparr>haslayer_Dot11Deauth = True, addr2 = Some ''AA:BB:CC:DD:EE:05''\<rparr>, clock = 4 / 10, appendable = True\<rparr>,
      \<lparr>frame = \<lparr>haslayer_Dot11Deauth = True, addr2 = Some ''AA:BB:CC:DD:EE:06''\<rparr>, clock = 5 / 10, appendable = True\<rparr>,
      \<lparr>frame = \<lparr>haslayer_Dot11Deauth = True, addr2 = Some ''AA:BB:CC:DD:EE:07''\<rparr>, clock = 6 / 10, appendable = True\<rparr>,
      \<lparr>frame = \<lparr>haslayer_Dot11Deauth = True, addr2 = Some ''AA:BB:CC:DD:EE:08''\<rparr>, clock = 7 / 10, appendable = True\<rparr>,
      \<lparr>frame = \<lparr>haslayer_Dot11Deauth = True, addr2 = Some ''AA:BB:CC:DD:EE:09''\<rparr>, clock = 8 / 10, appendable = True\<rparr>,
      \<lparr>frame = \<lparr>haslayer_Dot11Deauth = True, addr2 = Some ''AA:BB:CC:DD:EE:10''\<rparr>, clock = 9 / 10, appendable = True\<rparr>,
      \<lparr>frame = \<lparr>haslayer_Dot11Deauth = True, addr2 = Some ''AA:BB:CC:DD:EE:11''\<rparr>, clock = 6, appendable = True\<rparr>]) = [6]
   \<and> alerts_triggered (process_packets (DeAuthDetector_init ''wlan0mon'' 10 5 None [])
     [\<lparr>frame = \<lparr>haslayer_Dot11Deauth = True, addr2 = Some ''AA:BB:CC:DD:EE:01''\<rparr>, clock = 0, appendable = True\<rparr>,
      \<lparr>frame = \<lparr>haslayer_Dot11Deauth = True, addr2 = Some ''AA:BB:CC:DD:EE:02''\<rparr>, clock = 1 / 10, appendable = True\<rparr>,
      \<lparr>frame = \<lparr>haslayer_Dot11Deauth = True, addr2 = Some ''AA:BB:CC:DD:EE:03''\<rparr>, clock = 2 / 10, appendable = True\<rparr>,
      \<lparr>frame = \<lparr>haslayer_Dot11Deauth = True, addr2 = Some ''AA:BB:CC:DD:EE:04''\<rparr>, clock = 3 / 10, appendable = True\<rparr>,
      \<lparr>frame = \<lparr>haslayer_Dot11Deauth = True, addr2 = Some ''AA:BB:CC:DD:EE:05''\<rparr>, clock = 4 / 10, appendable = True\<rparr>,
      \<lparr>frame = \<lparr>haslayer_Dot11Deauth = True, addr2 = Some ''AA:BB:CC:DD:EE:06''\<rparr>, clock = 5 / 10, appendable = True\<rparr>,
      \<lparr>frame = \<lparr>haslayer_Dot11Deauth = True, addr2 = Some ''AA:BB:CC:DD:EE:07''\<rparr>, clock = 6 / 10, appendable = True\<rparr>,
      \<lparr>frame = \<lparr>haslayer_Dot11Deauth = True, addr2 = Some ''AA:BB:CC:DD:EE:08''\<rparr>, clock = 7 / 10, appendable = True\<rparr>,
      \<lparr>frame = \<lparr>haslayer_Dot11Deauth = True, addr2 = Some ''AA:BB:CC:DD:EE:09''\<rparr>, clock = 8 / 10, appendable = True\<rparr>,
      \<lparr>frame = \<lparr>haslayer_Dot11Deauth = True, addr2 = Some ''AA:BB:CC:DD:EE:10''\<rparr>, clock = 9 / 10, appendable = True\<rparr>,
      \<lparr>frame = \<lparr>haslayer_Dot11Deauth = True, addr2 = Some ''AA:BB:CC:DD:EE:11''\<rparr>, clock = 6, appendable = True\<rparr>]) = 1
   \<and> console_output (process_packets (DeAuthDetector_init ''wlan0mon'' 10 5 None [])
     [\<lparr>frame = \<lparr>haslayer_Dot11Deauth = True, addr2 = Some ''AA:BB:CC:DD:EE:01''\<rparr>, clock = 0, appendable = True\<rparr>,
      \<lparr>frame = \<lparr>haslayer_Dot11Deauth = True, addr2 = Some ''AA:BB:CC:DD:EE:02''\<rparr>, clock = 1 / 10, appendable = True\<rparr>,
      \<lparr>frame = \<lparr>haslayer_Dot11Deauth = True, addr2 = Some ''AA:BB:CC:DD:EE:03''\<rparr>, clock = 2 / 10, appendable = True\<rparr>,
      \<lparr>frame = \<lparr>haslayer_Dot11Deauth = True, addr2 = Some ''AA:BB:CC:DD:EE:04''\<rparr>, clock = 3 / 10, appendable = True\<rparr>,
      \<lparr>frame = \<lparr>haslayer_Dot11Deauth = True, addr2 = Some ''AA:BB:CC:DD:EE:05''\<rparr>, clock = 4 / 10, appendable = True\<rparr>,
      \<lparr>frame = \<lparr>haslayer_Dot11Deauth = True, addr2 = Some ''AA:BB:CC:DD:EE:06''\<rparr>, clock = 5 / 10, appendable = True\<rparr>,
      \<lparr>frame = \<lparr>haslayer_Dot11Deauth = True, addr2 = Some ''AA:BB:CC:DD:EE:07''\<rparr>, clock = 6 / 10, appendable = True\<rparr>,
      \<lparr>frame = \<lparr>haslayer_Dot11Deauth = True, addr2 = Some ''AA:BB:CC:DD:EE:08''\<rparr>, clock = 7 / 10, appendable = True\<rparr>,
      \<lparr>frame = \<lparr>haslayer_Dot11Deauth = True, addr2 = Some ''AA:BB:CC:DD:EE:09''\<rparr>, clock = 8 / 10, appendable = True\<rparr>,
      \<lparr>frame = \<lparr>haslayer_Dot11Deauth = True, addr2 = Some ''AA:BB:CC:DD:EE:10''\<rparr>, clock = 9 / 10, appendable = True\<rparr>,
      \<lparr>frame = \<lparr>haslayer_Dot11Deauth = True, addr2 = Some ''AA:BB:CC:DD:EE:11''\<rparr>, clock = 6, appendable = True\<rparr>]) =
     [Deauth_detected (Some ''AA:BB:CC:DD:EE:01'') 0,
      Deauth_detected (Some ''AA:BB:CC:DD:EE:02'') (1 / 10),
      Deauth_detected (Some ''AA:BB:CC:DD:EE:03'') (2 / 10),
      Deauth_detected (Some ''AA:BB:CC:DD:EE:04'') (3 / 10),
      Deauth_detected (Some ''AA:BB:CC:DD:EE:05'') (4 / 10),
      Deauth_detected (Some ''AA:BB:CC:DD:EE:06'') (5 / 10),
      Deauth_detected (Some ''AA:BB:CC:DD:EE:07'') (6 / 10),
      Deauth_detected (Some ''AA:BB:CC:DD:EE:08'') (7 / 10),
      Deauth_detected (Some ''AA:BB:CC:DD:EE:09'') (8 / 10),
      Deauth_detected (Some ''AA:BB:CC:DD:EE:10'') (9 / 10),
      Threshold_exceeded 10 5,
      Deauth_detected (Some ''AA:BB:CC:DD:EE:11'') 6]"
  by (simp add: DeAuthDetector_init_def process_packet_alerts process_packet_console evict_def
        log_write_raises_def truthy_def)



end
